theory Spec2Isabelle
  imports Main "HOL-Library.Char_ord" "HOL-Library.List_Lexorder" "HOL-Library.Option_ord"
begin

section \<open>Data model of \<open>go/inst/analysis_dao.go\<close>\<close>

text \<open>
  An instance is identified by host name and port (Go: \<open>InstanceKey{Hostname string, Port int}\<close>).
\<close>

record InstanceKey =
  Hostname :: string
  Port :: int

text \<open>
  \<open>AnalysisCode\<close> is a Go string type whose constants are declared outside
  \<open>analysis_dao.go\<close>; the file uses the 23 constants below and no other value. They are
  modelled as an enumeration, so two constants with different names are different codes.
\<close>

datatype AnalysisCode =
    NoProblem
  | DeadMasterWithoutSlaves
  | DeadMaster
  | DeadMasterAndSlaves
  | DeadMasterAndSomeSlaves
  | UnreachableMaster
  | MasterSingleSlaveNotReplicating
  | MasterSingleSlaveDead
  | AllMasterSlavesNotReplicating
  | AllMasterSlavesNotReplicatingOrDead
  | DeadCoMaster
  | DeadCoMasterAndSomeSlaves
  | UnreachableCoMaster
  | AllCoMasterSlavesNotReplicating
  | DeadIntermediateMasterWithSingleSlaveFailingToConnect
  | DeadIntermediateMasterWithSingleSlave
  | DeadIntermediateMaster
  | DeadIntermediateMasterAndSomeSlaves
  | UnreachableIntermediateMaster
  | AllIntermediateMasterSlavesFailingToConnectOrDead
  | AllIntermediateMasterSlavesNotReplicating
  | BinlogServerFailingToConnectToMaster
  | FirstTierSlaveFailingToConnectToMaster

record ClusterDetails =
  ClusterName :: string
  ClusterAlias :: string

text \<open>
  The struct \<open>ReplicationAnalysis\<close>, with the fields the function assigns. The Go counters
  are \<open>uint\<close>; they hold row counts of a table, far below the word size, and are natural
  numbers here. \<open>SlaveHosts\<close> is an \<open>InstanceKeyMap\<close>, a set of keys.
\<close>

record ReplicationAnalysis =
  AnalyzedInstanceKey :: InstanceKey
  AnalyzedInstanceMasterKey :: InstanceKey
  ClusterDetails :: ClusterDetails
  IsMaster :: bool
  IsCoMaster :: bool
  LastCheckValid :: bool
  CountSlaves :: nat
  CountValidSlaves :: nat
  CountValidReplicatingSlaves :: nat
  CountSlavesFailingToConnectToMaster :: nat
  ReplicationDepth :: nat
  SlaveHosts :: "InstanceKey set"
  IsFailingToConnectToMaster :: bool
  Analysis :: AnalysisCode
  Description :: string
  IsDowntimed :: bool
  DowntimeEndTimestamp :: string
  DowntimeRemainingSeconds :: int
  IsBinlogServer :: bool
  PseudoGTIDImmediateTopology :: bool
  OracleGTIDImmediateTopology :: bool
  MariaDBGTIDImmediateTopology :: bool
  BinlogServerImmediateTopology :: bool

section \<open>The rule chain (lines 174--267)\<close>

text \<open>
  The \<open>if ... else if\<close> chain of the row callback, guard for guard and in the source's
  order. A branch assigns \<open>Analysis\<close> and \<open>Description\<close>; when no guard holds the record is
  left as it is.
\<close>

definition classify :: "ReplicationAnalysis \<Rightarrow> ReplicationAnalysis" where
  "classify a =
    (if IsMaster a \<and> \<not> LastCheckValid a \<and> CountSlaves a = 0 then
       a\<lparr>Analysis := DeadMasterWithoutSlaves,
         Description := ''Master cannot be reached by orchestrator and has no slave''\<rparr>
     else if IsMaster a \<and> \<not> LastCheckValid a \<and> CountValidSlaves a = CountSlaves a
         \<and> CountValidReplicatingSlaves a = 0 then
       a\<lparr>Analysis := DeadMaster,
         Description := ''Master cannot be reached by orchestrator and none of its slaves is replicating''\<rparr>
     else if IsMaster a \<and> \<not> LastCheckValid a \<and> CountSlaves a > 0 \<and> CountValidSlaves a = 0
         \<and> CountValidReplicatingSlaves a = 0 then
       a\<lparr>Analysis := DeadMasterAndSlaves,
         Description := ''Master cannot be reached by orchestrator and none of its slaves is replicating''\<rparr>
     else if IsMaster a \<and> \<not> LastCheckValid a \<and> CountValidSlaves a < CountSlaves a
         \<and> CountValidSlaves a > 0 \<and> CountValidReplicatingSlaves a = 0 then
       a\<lparr>Analysis := DeadMasterAndSomeSlaves,
         Description := ''Master cannot be reached by orchestrator; some of its slaves are unreachable and none of its reachable slaves is replicating''\<rparr>
     else if IsMaster a \<and> \<not> LastCheckValid a \<and> CountValidSlaves a > 0
         \<and> CountValidReplicatingSlaves a > 0 then
       a\<lparr>Analysis := UnreachableMaster,
         Description := ''Master cannot be reached by orchestrator but it has replicating slaves; possibly a network/host issue''\<rparr>
     else if IsMaster a \<and> LastCheckValid a \<and> CountSlaves a = 1
         \<and> CountValidSlaves a = CountSlaves a \<and> CountValidReplicatingSlaves a = 0 then
       a\<lparr>Analysis := MasterSingleSlaveNotReplicating,
         Description := ''Master is reachable but its single slave is not replicating''\<rparr>
     else if IsMaster a \<and> LastCheckValid a \<and> CountSlaves a = 1 \<and> CountValidSlaves a = 0 then
       a\<lparr>Analysis := MasterSingleSlaveDead,
         Description := ''Master is reachable but its single slave is dead''\<rparr>
     else if IsMaster a \<and> LastCheckValid a \<and> CountSlaves a > 1
         \<and> CountValidSlaves a = CountSlaves a \<and> CountValidReplicatingSlaves a = 0 then
       a\<lparr>Analysis := AllMasterSlavesNotReplicating,
         Description := ''Master is reachable but none of its slaves is replicating''\<rparr>
     else if IsMaster a \<and> LastCheckValid a \<and> CountSlaves a > 1
         \<and> CountValidSlaves a < CountSlaves a \<and> CountValidSlaves a > 0
         \<and> CountValidReplicatingSlaves a = 0 then
       a\<lparr>Analysis := AllMasterSlavesNotReplicatingOrDead,
         Description := ''Master is reachable but none of its slaves is replicating''\<rparr>
     else if IsCoMaster a \<and> \<not> LastCheckValid a \<and> CountSlaves a > 0
         \<and> CountValidSlaves a = CountSlaves a \<and> CountValidReplicatingSlaves a = 0 then
       a\<lparr>Analysis := DeadCoMaster,
         Description := ''Co-master cannot be reached by orchestrator and none of its slaves is replicating''\<rparr>
     else if IsCoMaster a \<and> \<not> LastCheckValid a \<and> CountSlaves a > 0
         \<and> CountValidSlaves a < CountSlaves a \<and> CountValidSlaves a > 0
         \<and> CountValidReplicatingSlaves a = 0 then
       a\<lparr>Analysis := DeadCoMasterAndSomeSlaves,
         Description := ''Co-master cannot be reached by orchestrator; some of its slaves are unreachable and none of its reachable slaves is replicating''\<rparr>
     else if IsCoMaster a \<and> \<not> LastCheckValid a \<and> CountValidSlaves a > 0
         \<and> CountValidReplicatingSlaves a > 0 then
       a\<lparr>Analysis := UnreachableCoMaster,
         Description := ''Co-master cannot be reached by orchestrator but it has replicating slaves; possibly a network/host issue''\<rparr>
     else if IsCoMaster a \<and> LastCheckValid a \<and> CountSlaves a > 0
         \<and> CountValidReplicatingSlaves a = 0 then
       a\<lparr>Analysis := AllCoMasterSlavesNotReplicating,
         Description := ''Co-master is reachable but none of its slaves is replicating''\<rparr>
     else if \<not> IsMaster a \<and> \<not> LastCheckValid a \<and> CountSlaves a = 1
         \<and> CountValidSlaves a = CountSlaves a
         \<and> CountSlavesFailingToConnectToMaster a = CountSlaves a
         \<and> CountValidReplicatingSlaves a = 0 then
       a\<lparr>Analysis := DeadIntermediateMasterWithSingleSlaveFailingToConnect,
         Description := ''Intermediate master cannot be reached by orchestrator and its (single) slave is failing to connect''\<rparr>
     else if \<not> IsMaster a \<and> \<not> LastCheckValid a \<and> CountSlaves a = 1
         \<and> CountValidSlaves a = CountSlaves a \<and> CountValidReplicatingSlaves a = 0 then
       a\<lparr>Analysis := DeadIntermediateMasterWithSingleSlave,
         Description := ''Intermediate master cannot be reached by orchestrator and its (single) slave is not replicating''\<rparr>
     else if \<not> IsMaster a \<and> \<not> LastCheckValid a \<and> CountSlaves a > 1
         \<and> CountValidSlaves a = CountSlaves a \<and> CountValidReplicatingSlaves a = 0 then
       a\<lparr>Analysis := DeadIntermediateMaster,
         Description := ''Intermediate master cannot be reached by orchestrator and none of its slaves is replicating''\<rparr>
     else if \<not> IsMaster a \<and> \<not> LastCheckValid a \<and> CountValidSlaves a < CountSlaves a
         \<and> CountValidSlaves a > 0 \<and> CountValidReplicatingSlaves a = 0 then
       a\<lparr>Analysis := DeadIntermediateMasterAndSomeSlaves,
         Description := ''Intermediate master cannot be reached by orchestrator; some of its slaves are unreachable and none of its reachable slaves is replicating''\<rparr>
     else if \<not> IsMaster a \<and> \<not> LastCheckValid a \<and> CountValidSlaves a > 0
         \<and> CountValidReplicatingSlaves a > 0 then
       a\<lparr>Analysis := UnreachableIntermediateMaster,
         Description := ''Intermediate master cannot be reached by orchestrator but it has replicating slaves; possibly a network/host issue''\<rparr>
     else if \<not> IsMaster a \<and> LastCheckValid a \<and> CountSlaves a > 1
         \<and> CountValidReplicatingSlaves a = 0
         \<and> CountSlavesFailingToConnectToMaster a > 0
         \<and> CountSlavesFailingToConnectToMaster a = CountValidSlaves a then
       a\<lparr>Analysis := AllIntermediateMasterSlavesFailingToConnectOrDead,
         Description := ''Intermediate master is reachable but all of its slaves are failing to connect''\<rparr>
     else if \<not> IsMaster a \<and> LastCheckValid a \<and> CountSlaves a > 0
         \<and> CountValidReplicatingSlaves a = 0 then
       a\<lparr>Analysis := AllIntermediateMasterSlavesNotReplicating,
         Description := ''Intermediate master is reachable but none of its slaves is replicating''\<rparr>
     else if IsBinlogServer a \<and> IsFailingToConnectToMaster a then
       a\<lparr>Analysis := BinlogServerFailingToConnectToMaster,
         Description := ''Binlog server is unable to connect to its master''\<rparr>
     else if ReplicationDepth a = 1 \<and> IsFailingToConnectToMaster a then
       a\<lparr>Analysis := FirstTierSlaveFailingToConnectToMaster,
         Description := ''1st tier slave (directly replicating from topology master) is unable to connect to the master''\<rparr>
     else a)"

section \<open>Configuration and library functions\<close>

text \<open>The fields of \<open>config.Config\<close> that the file reads.\<close>

record Config =
  ReduceReplicationAnalysisCount :: bool
  InstancePollSeconds :: nat
  RecoveryIgnoreHostnameFilters :: "string list"
  UnseenInstanceForgetHours :: nat

datatype regexp_error = RegexpError

text \<open>
  Functions of libraries and of other files, taken as parameters: Go's
  \<open>regexp.MatchString pattern s\<close> (it returns \<open>(false, err)\<close> when the pattern does not
  compile, which is \<open>Inl\<close> here), MySQL's \<open>RLIKE\<close> (subject first, pattern second),
  \<open>ClusterDetails.ReadRecoveryInfo\<close>, \<open>InstanceKeyMap.ReadCommaDelimitedList\<close>, MySQL's
  rendering of a timestamp as text, and the string value of an \<open>AnalysisCode\<close>.
\<close>

record externals =
  regexp_MatchString :: "string \<Rightarrow> string \<Rightarrow> regexp_error + bool"
  sql_rlike :: "string \<Rightarrow> string \<Rightarrow> bool"
  ReadRecoveryInfo :: "ClusterDetails \<Rightarrow> ClusterDetails"
  ReadCommaDelimitedList :: "string \<Rightarrow> InstanceKey list"
  format_timestamp :: "int \<Rightarrow> string"
  code_string :: "AnalysisCode \<Rightarrow> string"

section \<open>The backend database\<close>

text \<open>
  The tables the statements name, with the columns they use. Timestamps are seconds on
  the integer line. \<open>last_seen\<close> may be \<open>NULL\<close>; so may the \<open>..._active\<close> markers of the
  two side tables. The flag columns are small integers, tested with \<open>!= 0\<close>, \<open>= 0\<close> and
  \<open>= 1\<close> and summed, so they are numbers here and not booleans.
\<close>

record instance_row =
  i_hostname :: string
  i_port :: nat
  i_server_id :: nat
  i_master_host :: string
  i_master_port :: nat
  i_cluster_name :: string
  i_last_checked :: int
  i_last_seen :: "int option"
  i_last_attempted_check :: int
  i_slave_io_running :: nat
  i_slave_sql_running :: nat
  i_last_io_error :: string
  i_is_co_master :: nat
  i_replication_depth :: nat
  i_binlog_server :: nat
  i_pseudo_gtid :: nat
  i_supports_oracle_gtid :: nat
  i_oracle_gtid :: nat
  i_mariadb_gtid :: nat

record hostname_resolve_row =
  hr_hostname :: string
  hr_resolved_hostname :: string

record maintenance_row =
  mt_database_instance_maintenance_id :: nat
  mt_hostname :: string
  mt_port :: nat
  mt_maintenance_active :: "nat option"

record downtime_row =
  dt_hostname :: string
  dt_port :: nat
  dt_downtime_active :: "nat option"
  dt_end_timestamp :: int

record cluster_alias_row =
  ca_cluster_name :: string
  ca_alias :: string

record last_analysis_row =
  la_analysis_timestamp :: int
  la_analysis :: AnalysisCode

record changelog_row =
  cl_hostname :: string
  cl_port :: int
  cl_analysis_timestamp :: int
  cl_analysis :: AnalysisCode

datatype error = QueryError | ExecError | RowsAffectedError

text \<open>
  What the next statement sent to the backend will do: a failure is decided by the
  environment, so the database carries the outcomes of the coming \<open>Exec\<close> and \<open>Query\<close>
  calls; an empty list means that every coming call succeeds. \<open>QueryFailsAfter n\<close> is a
  query that hands \<open>n\<close> rows to the callback and then fails.
\<close>

datatype exec_outcome = ExecSucceeds | ExecFails | RowsAffectedFails

datatype query_outcome = QuerySucceeds | QueryFailsAfter nat

text \<open>
  \<open>database_instance\<close> is keyed by \<open>(hostname, port)\<close>, and
  \<open>database_instance_last_analysis\<close> has that pair as its unique key (the
  \<open>on duplicate key\<close> clause acts on it), so the latter is a map from keys to rows.
  \<open>database_instance_analysis_changelog\<close> is listed in the order of \<open>changelog_id\<close>.
\<close>

record orchestrator_db =
  database_instance :: "instance_row list"
  hostname_resolve :: "hostname_resolve_row list"
  database_instance_maintenance :: "maintenance_row list"
  database_instance_downtime :: "downtime_row list"
  cluster_alias_table :: "cluster_alias_row list"
  database_instance_last_analysis :: "InstanceKey \<rightharpoonup> last_analysis_row"
  database_instance_analysis_changelog :: "changelog_row list"
  clock :: int
  exec_outcomes :: "exec_outcome list"
  query_outcomes :: "query_outcome list"

definition next_exec_outcome :: "orchestrator_db \<Rightarrow> exec_outcome \<times> orchestrator_db" where
  "next_exec_outcome db =
     (case exec_outcomes db of
        [] \<Rightarrow> (ExecSucceeds, db)
      | x # xs \<Rightarrow> (x, db\<lparr>exec_outcomes := xs\<rparr>))"

definition next_query_outcome :: "orchestrator_db \<Rightarrow> query_outcome \<times> orchestrator_db" where
  "next_query_outcome db =
     (case query_outcomes db of
        [] \<Rightarrow> (QuerySucceeds, db)
      | x # xs \<Rightarrow> (x, db\<lparr>query_outcomes := xs\<rparr>))"

section \<open>\<open>AuditInstanceAnalysisInChangelog\<close> (lines 303--338)\<close>

text \<open>
  The \<open>on duplicate key update\<close> clause of the first statement. MySQL evaluates the
  assignments of an update from left to right, and a column named in a later assignment
  has the value an earlier assignment gave it: \<open>analysis\<close> is assigned first, and the
  \<open>if(analysis = values(analysis), ...)\<close> of the second assignment reads the assigned
  value. \<open>row\<close> is the stored row, \<open>vals\<close> the row of the \<open>values (...)\<close> clause.
\<close>

definition on_duplicate_key_update :: "last_analysis_row \<Rightarrow> last_analysis_row \<Rightarrow> last_analysis_row" where
  "on_duplicate_key_update row vals =
     (let row1 = row\<lparr>la_analysis := la_analysis vals\<rparr>;
          row2 = row1\<lparr>la_analysis_timestamp :=
                   (if la_analysis row1 = la_analysis vals then la_analysis_timestamp row1
                    else la_analysis_timestamp vals)\<rparr>
      in row2)"

text \<open>
  The first statement, with the number of affected rows MySQL reports for
  \<open>insert ... on duplicate key update\<close>: 1 for a new row, 2 for a stored row that
  changed, 0 for a stored row set to the values it had.
\<close>

definition upsert_last_analysis :: "InstanceKey \<Rightarrow> AnalysisCode \<Rightarrow> orchestrator_db \<Rightarrow> nat \<times> orchestrator_db" where
  "upsert_last_analysis instanceKey analysisCode db =
     (let vals = \<lparr>la_analysis_timestamp = clock db, la_analysis = analysisCode\<rparr> in
      case database_instance_last_analysis db instanceKey of
        None \<Rightarrow>
          (1, db\<lparr>database_instance_last_analysis :=
                   (database_instance_last_analysis db)(instanceKey \<mapsto> vals)\<rparr>)
      | Some row \<Rightarrow>
          (let row' = on_duplicate_key_update row vals in
           (if row' = row then 0 else 2,
            db\<lparr>database_instance_last_analysis :=
                  (database_instance_last_analysis db)(instanceKey \<mapsto> row')\<rparr>)))"

definition insert_changelog :: "InstanceKey \<Rightarrow> AnalysisCode \<Rightarrow> orchestrator_db \<Rightarrow> orchestrator_db" where
  "insert_changelog instanceKey analysisCode db =
     db\<lparr>database_instance_analysis_changelog :=
          database_instance_analysis_changelog db @
            [\<lparr>cl_hostname = Hostname instanceKey, cl_port = Port instanceKey,
              cl_analysis_timestamp = clock db, cl_analysis = analysisCode\<rparr>]\<rparr>"

text \<open>
  The function returns its error and the database it leaves. A statement that fails
  changes nothing; \<open>RowsAffectedFails\<close> is a statement that ran and whose
  \<open>RowsAffected()\<close> then fails. The result of the second \<open>Exec\<close> is not read.
\<close>

definition AuditInstanceAnalysisInChangelog :: "InstanceKey \<Rightarrow> AnalysisCode \<Rightarrow> orchestrator_db \<Rightarrow> error option \<times> orchestrator_db" where
  "AuditInstanceAnalysisInChangelog instanceKey analysisCode db =
     (case next_exec_outcome db of
        (ExecFails, db1) \<Rightarrow> (Some ExecError, db1)
      | (RowsAffectedFails, db1) \<Rightarrow>
          (Some RowsAffectedError, snd (upsert_last_analysis instanceKey analysisCode db1))
      | (ExecSucceeds, db1) \<Rightarrow>
          (case upsert_last_analysis instanceKey analysisCode db1 of (rows, db2) \<Rightarrow>
             (let lastAnalysisChanged = (rows > 0) in
              if \<not> lastAnalysisChanged then (None, db2)
              else (case next_exec_outcome db2 of
                      (ExecFails, db3) \<Rightarrow> (Some ExecError, db3)
                    | (_, db3) \<Rightarrow> (None, insert_changelog instanceKey analysisCode db3)))))"

section \<open>\<open>ExpireInstanceAnalysisChangelog\<close> (lines 341--351)\<close>

definition ExpireInstanceAnalysisChangelog :: "Config \<Rightarrow> orchestrator_db \<Rightarrow> error option \<times> orchestrator_db" where
  "ExpireInstanceAnalysisChangelog cfg db =
     (case next_exec_outcome db of
        (ExecFails, db1) \<Rightarrow> (Some ExecError, db1)
      | (_, db1) \<Rightarrow>
          (None,
           db1\<lparr>database_instance_analysis_changelog :=
                 filter (\<lambda>r. \<not> cl_analysis_timestamp r
                                  < clock db1 - 3600 * int (UnseenInstanceForgetHours cfg))
                   (database_instance_analysis_changelog db1)\<rparr>))"

section \<open>The aggregate query of \<open>GetReplicationAnalysis\<close> (lines 47--140)\<close>

subsection \<open>SQL values\<close>

text \<open>
  A cell is a value or \<open>NULL\<close> (\<open>None\<close>). A condition is true, false or \<open>NULL\<close>; as a
  number it is 1, 0 or \<open>NULL\<close>. \<open>SUM\<close> and \<open>MIN\<close> skip \<open>NULL\<close> and are \<open>NULL\<close> when no value
  is left. \<open>MIN\<close> on text follows the order of the bytes.
\<close>

type_synonym sql_bool = "bool option"

definition sql_and :: "sql_bool \<Rightarrow> sql_bool \<Rightarrow> sql_bool" where
  "sql_and p q =
     (if p = Some False \<or> q = Some False then Some False
      else if p = None \<or> q = None then None else Some True)"

definition sql_or :: "sql_bool \<Rightarrow> sql_bool \<Rightarrow> sql_bool" where
  "sql_or p q =
     (if p = Some True \<or> q = Some True then Some True
      else if p = None \<or> q = None then None else Some False)"

definition sql_le :: "int option \<Rightarrow> int option \<Rightarrow> sql_bool" where
  "sql_le x y = (case (x, y) of (Some a, Some b) \<Rightarrow> Some (a \<le> b) | _ \<Rightarrow> None)"

definition sql_num :: "sql_bool \<Rightarrow> nat option" where
  "sql_num p = map_option (\<lambda>b. if b then 1 else 0) p"

definition sql_sum :: "nat option list \<Rightarrow> nat option" where
  "sql_sum xs = (case List.map_filter id xs of [] \<Rightarrow> None | y # ys \<Rightarrow> Some (sum_list (y # ys)))"

definition sql_min :: "('a::linorder) option list \<Rightarrow> 'a option" where
  "sql_min xs = (case List.map_filter id xs of [] \<Rightarrow> None | y # ys \<Rightarrow> Some (fold min ys y))"

definition sql_count :: "'a option list \<Rightarrow> nat" where
  "sql_count xs = length (List.map_filter id xs)"

definition IFNULL :: "'a option \<Rightarrow> 'a \<Rightarrow> 'a" where
  "IFNULL x d = (case x of None \<Rightarrow> d | Some v \<Rightarrow> v)"

definition is_true :: "nat option \<Rightarrow> bool" where
  "is_true x = (case x of None \<Rightarrow> False | Some n \<Rightarrow> n \<noteq> 0)"

definition is_false :: "nat option \<Rightarrow> bool" where
  "is_false x = (x = Some 0)"

fun join_with :: "string \<Rightarrow> string list \<Rightarrow> string" where
  "join_with sep [] = []"
| "join_with sep [x] = x"
| "join_with sep (x # y # ys) = x @ sep @ join_with sep (y # ys)"

fun show_nat :: "nat \<Rightarrow> string" where
  "show_nat n =
     (if n < 10 then [''0123456789'' ! n]
      else show_nat (n div 10) @ [''0123456789'' ! (n mod 10)])"

definition left_join :: "('l \<Rightarrow> 'r option \<Rightarrow> 'l) \<Rightarrow> ('l \<Rightarrow> 'r \<Rightarrow> bool) \<Rightarrow> 'l list \<Rightarrow> 'r list \<Rightarrow> 'l list" where
  "left_join put on ls rs =
     concat (map (\<lambda>l. case filter (on l) rs of
                         [] \<Rightarrow> [put l None]
                       | m # ms \<Rightarrow> map (\<lambda>r. put l (Some r)) (m # ms)) ls)"

subsection \<open>The joined rows\<close>

record joined_row =
  master_instance :: instance_row
  hostname_resolve_j :: "hostname_resolve_row option"
  slave_instance :: "instance_row option"
  maintenance_j :: "maintenance_row option"
  downtime_j :: "downtime_row option"
  cluster_alias_j :: "cluster_alias_row option"

text \<open>
  \<open>FROM ... LEFT JOIN ... WHERE\<close>: every instance, joined to its resolved host name, to
  the instances that name it as their master, to its active maintenance and downtime
  entries and to the alias of its cluster; a row with a maintenance entry is dropped.
  Text is compared as it is written.
\<close>

definition joined_rows :: "orchestrator_db \<Rightarrow> joined_row list" where
  "joined_rows db =
     (let j0 = map (\<lambda>m. \<lparr>master_instance = m, hostname_resolve_j = None, slave_instance = None,
                          maintenance_j = None, downtime_j = None, cluster_alias_j = None\<rparr>)
                 (database_instance db);
          j1 = left_join (\<lambda>j r. j\<lparr>hostname_resolve_j := r\<rparr>)
                 (\<lambda>j r. i_hostname (master_instance j) = hr_hostname r)
                 j0 (hostname_resolve db);
          j2 = left_join (\<lambda>j s. j\<lparr>slave_instance := s\<rparr>)
                 (\<lambda>j s. IFNULL (map_option hr_resolved_hostname (hostname_resolve_j j))
                            (i_hostname (master_instance j)) = i_master_host s
                        \<and> i_port (master_instance j) = i_master_port s)
                 j1 (database_instance db);
          j3 = left_join (\<lambda>j x. j\<lparr>maintenance_j := x\<rparr>)
                 (\<lambda>j x. i_hostname (master_instance j) = mt_hostname x
                        \<and> i_port (master_instance j) = mt_port x
                        \<and> mt_maintenance_active x = Some 1)
                 j2 (database_instance_maintenance db);
          j4 = left_join (\<lambda>j d. j\<lparr>downtime_j := d\<rparr>)
                 (\<lambda>j d. i_hostname (master_instance j) = dt_hostname d
                        \<and> i_port (master_instance j) = dt_port d
                        \<and> dt_downtime_active d = Some 1)
                 j3 (database_instance_downtime db);
          j5 = left_join (\<lambda>j c. j\<lparr>cluster_alias_j := c\<rparr>)
                 (\<lambda>j c. ca_cluster_name c = i_cluster_name (master_instance j))
                 j4 (cluster_alias_table db)
      in filter (\<lambda>j. maintenance_j j = None) j5)"

subsection \<open>The select list\<close>

text \<open>
  The row the callback receives (\<open>sqlutils.RowMap\<close>), one cell for each column of the
  select list. Numbers that count rows or hold flags are natural numbers.
\<close>

record RowMap =
  hostname :: "string option"
  port :: "nat option"
  master_host :: "string option"
  master_port :: "nat option"
  cluster_name :: "string option"
  cluster_alias :: "string option"
  is_last_check_valid :: "nat option"
  is_master :: "nat option"
  is_co_master :: "nat option"
  is_cluster_master :: "nat option"
  count_slaves :: "nat option"
  count_valid_slaves :: "nat option"
  count_valid_replicating_slaves :: "nat option"
  count_slaves_failing_to_connect_to_master :: "nat option"
  replication_depth :: "nat option"
  slave_hosts :: "string option"
  is_failing_to_connect_to_master :: "nat option"
  is_downtimed :: "nat option"
  downtime_end_timestamp :: "string option"
  downtime_remaining_seconds :: "int option"
  is_binlog_server :: "nat option"
  is_pseudo_gtid :: "nat option"
  supports_oracle_gtid :: "nat option"
  count_oracle_gtid_slaves :: "nat option"
  count_binlog_server_slaves :: "nat option"
  is_mariadb_gtid :: "nat option"

text \<open>The conditions on the replica of a joined row; every one is \<open>NULL\<close> when there is none.\<close>

definition slave_valid :: "joined_row \<Rightarrow> sql_bool" where
  "slave_valid j =
     (case slave_instance j of
        None \<Rightarrow> None
      | Some s \<Rightarrow> sql_le (Some (i_last_checked s)) (i_last_seen s))"

definition slave_valid_replicating :: "joined_row \<Rightarrow> sql_bool" where
  "slave_valid_replicating j =
     (case slave_instance j of
        None \<Rightarrow> None
      | Some s \<Rightarrow>
          sql_and (sql_and (sql_le (Some (i_last_checked s)) (i_last_seen s))
                           (Some (i_slave_io_running s \<noteq> 0)))
                  (Some (i_slave_sql_running s \<noteq> 0)))"

definition slave_failing_to_connect :: "externals \<Rightarrow> joined_row \<Rightarrow> sql_bool" where
  "slave_failing_to_connect ext j =
     (case slave_instance j of
        None \<Rightarrow> None
      | Some s \<Rightarrow>
          sql_and (sql_and (sql_and (sql_le (Some (i_last_checked s)) (i_last_seen s))
                                    (Some (i_slave_io_running s = 0)))
                           (Some (sql_rlike ext (i_last_io_error s)
                                    ''error (connecting|reconnecting) to master'')))
                  (Some (i_slave_sql_running s = 1)))"

definition master_check_valid :: "Config \<Rightarrow> instance_row \<Rightarrow> sql_bool" where
  "master_check_valid cfg m =
     sql_and (sql_le (Some (i_last_checked m)) (i_last_seen m))
             (sql_le (Some (i_last_attempted_check m))
                     (map_option (\<lambda>t. t + int (2 * InstancePollSeconds cfg)) (i_last_seen m)))"

definition master_failing_to_connect :: "externals \<Rightarrow> instance_row \<Rightarrow> sql_bool" where
  "master_failing_to_connect ext m =
     sql_and (sql_and (Some (i_slave_sql_running m = 1)) (Some (i_slave_io_running m = 0)))
             (Some (sql_rlike ext (i_last_io_error m)
                      ''error (connecting|reconnecting) to master''))"

definition downtime_over :: "int \<Rightarrow> joined_row \<Rightarrow> sql_bool" where
  "downtime_over t j =
     (case downtime_j j of
        None \<Rightarrow> sql_or (Some True) None
      | Some d \<Rightarrow> sql_or (Some (dt_downtime_active d = None)) (Some (dt_end_timestamp d < t)))"

text \<open>
  The select list over one group \<open>g\<close> of joined rows, the rows of one
  \<open>(hostname, port)\<close> of \<open>master_instance\<close>; \<open>t\<close> is \<open>NOW()\<close>.
\<close>

definition select_row :: "externals \<Rightarrow> Config \<Rightarrow> int \<Rightarrow> string \<times> nat \<Rightarrow> joined_row list \<Rightarrow> RowMap" where
  "select_row ext cfg t k g =
     \<lparr>hostname = Some (fst k),
      port = Some (snd k),
      master_host = sql_min (map (\<lambda>j. Some (i_master_host (master_instance j))) g),
      master_port = sql_min (map (\<lambda>j. Some (i_master_port (master_instance j))) g),
      cluster_name = sql_min (map (\<lambda>j. Some (i_cluster_name (master_instance j))) g),
      cluster_alias =
        sql_min (map (\<lambda>j. Some (IFNULL (map_option ca_alias (cluster_alias_j j))
                                   (i_cluster_name (master_instance j)))) g),
      is_last_check_valid =
        Some (if is_true (sql_min (map (\<lambda>j. sql_num (master_check_valid cfg (master_instance j))) g))
              then 1 else 0),
      is_master =
        sql_min (map (\<lambda>j. sql_num (sql_or
                   (Some (i_master_host (master_instance j) \<in> set [[], ''_'']))
                   (Some (i_master_port (master_instance j) = 0)))) g),
      is_co_master = sql_min (map (\<lambda>j. Some (i_is_co_master (master_instance j))) g),
      is_cluster_master =
        sql_min (map (\<lambda>j. sql_num (Some
                   (i_hostname (master_instance j) @ '':'' @ show_nat (i_port (master_instance j))
                      = i_cluster_name (master_instance j)))) g),
      count_slaves = Some (sql_count (map (\<lambda>j. map_option i_server_id (slave_instance j)) g)),
      count_valid_slaves =
        Some (IFNULL (sql_sum (map (\<lambda>j. sql_num (slave_valid j)) g)) 0),
      count_valid_replicating_slaves =
        Some (IFNULL (sql_sum (map (\<lambda>j. sql_num (slave_valid_replicating j)) g)) 0),
      count_slaves_failing_to_connect_to_master =
        Some (IFNULL (sql_sum (map (\<lambda>j. sql_num (slave_failing_to_connect ext j)) g)) 0),
      replication_depth = sql_min (map (\<lambda>j. Some (i_replication_depth (master_instance j))) g),
      slave_hosts =
        (case List.map_filter slave_instance g of
           [] \<Rightarrow> None
         | s # ss \<Rightarrow> Some (join_with '',''
                       (map (\<lambda>s. i_hostname s @ '':'' @ show_nat (i_port s)) (s # ss)))),
      is_failing_to_connect_to_master =
        sql_min (map (\<lambda>j. sql_num (master_failing_to_connect ext (master_instance j))) g),
      is_downtimed =
        Some (if is_false (sql_min (map (\<lambda>j. sql_num (downtime_over t j)) g)) then 1 else 0),
      downtime_end_timestamp =
        sql_min (map (\<lambda>j. Some (IFNULL (map_option (\<lambda>d. format_timestamp ext (dt_end_timestamp d))
                                           (downtime_j j)) [])) g),
      downtime_remaining_seconds =
        sql_min (map (\<lambda>j. Some (IFNULL (map_option (\<lambda>d. dt_end_timestamp d - t) (downtime_j j)) 0)) g),
      is_binlog_server = sql_min (map (\<lambda>j. Some (i_binlog_server (master_instance j))) g),
      is_pseudo_gtid = sql_min (map (\<lambda>j. Some (i_pseudo_gtid (master_instance j))) g),
      supports_oracle_gtid =
        sql_min (map (\<lambda>j. Some (i_supports_oracle_gtid (master_instance j))) g),
      count_oracle_gtid_slaves =
        sql_sum (map (\<lambda>j. map_option i_oracle_gtid (slave_instance j)) g),
      count_binlog_server_slaves =
        sql_sum (map (\<lambda>j. map_option i_binlog_server (slave_instance j)) g),
      is_mariadb_gtid = sql_min (map (\<lambda>j. Some (i_mariadb_gtid (master_instance j))) g)\<rparr>"

subsection \<open>Grouping, \<open>HAVING\<close> and \<open>ORDER BY\<close>\<close>

definition group_key :: "joined_row \<Rightarrow> string \<times> nat" where
  "group_key j = (i_hostname (master_instance j), i_port (master_instance j))"

definition grouped_rows :: "externals \<Rightarrow> Config \<Rightarrow> orchestrator_db \<Rightarrow> RowMap list" where
  "grouped_rows ext cfg db =
     (let js = joined_rows db in
      map (\<lambda>k. select_row ext cfg (clock db) k (filter (\<lambda>j. group_key j = k) js))
        (remdups (map group_key js)))"

text \<open>\<open>analysisQueryReductionClause\<close>: the \<open>HAVING\<close> clause is there when the flag is set.\<close>

definition having_clause :: "Config \<Rightarrow> RowMap \<Rightarrow> bool" where
  "having_clause cfg r =
     (if ReduceReplicationAnalysisCount cfg then
        is_last_check_valid r = Some 0
        \<or> IFNULL (map_option (\<lambda>n. n > 0) (count_slaves_failing_to_connect_to_master r)) False
        \<or> (case (count_valid_slaves r, count_slaves r) of
              (Some v, Some c) \<Rightarrow> v < c | _ \<Rightarrow> False)
        \<or> (case (count_valid_replicating_slaves r, count_slaves r) of
              (Some v, Some c) \<Rightarrow> v < c | _ \<Rightarrow> False)
        \<or> is_true (is_failing_to_connect_to_master r)
        \<or> IFNULL (map_option (\<lambda>n. n > 0) (count_slaves r)) False
      else True)"

text \<open>
  \<open>ORDER BY is_master DESC, is_cluster_master DESC, count_slaves DESC\<close>, as a stable
  insertion sort (SQL leaves the order of equal rows open); \<open>NULL\<close> is below every
  value.
\<close>

definition sorts_before :: "RowMap \<Rightarrow> RowMap \<Rightarrow> bool" where
  "sorts_before r1 r2 =
     (is_master r1 > is_master r2
      \<or> (is_master r1 = is_master r2
         \<and> (is_cluster_master r1 > is_cluster_master r2
            \<or> (is_cluster_master r1 = is_cluster_master r2
               \<and> count_slaves r1 > count_slaves r2))))"

fun insert_row :: "RowMap \<Rightarrow> RowMap list \<Rightarrow> RowMap list" where
  "insert_row r [] = [r]"
| "insert_row r (x # xs) = (if sorts_before x r then x # insert_row r xs else r # x # xs)"

definition order_by :: "RowMap list \<Rightarrow> RowMap list" where
  "order_by rs = foldr insert_row rs []"

definition replication_analysis_query :: "externals \<Rightarrow> Config \<Rightarrow> orchestrator_db \<Rightarrow> RowMap list" where
  "replication_analysis_query ext cfg db =
     order_by (filter (having_clause cfg) (grouped_rows ext cfg db))"

section \<open>Reading rows\<close>

text \<open>
  The getters of \<open>sqlutils.RowMap\<close>: a \<open>NULL\<close> cell reads as the empty string, as 0 and as
  \<open>false\<close>; \<open>GetBool\<close> is \<open>GetInt(key) != 0\<close>.
\<close>

definition GetString :: "string option \<Rightarrow> string" where
  "GetString c = IFNULL c []"

definition GetInt :: "int option \<Rightarrow> int" where
  "GetInt c = IFNULL c 0"

definition GetUint :: "nat option \<Rightarrow> nat" where
  "GetUint c = IFNULL c 0"

definition GetBool :: "nat option \<Rightarrow> bool" where
  "GetBool c = (GetUint c \<noteq> 0)"

text \<open>
  Modelled from the spec: \<open>db.QueryOrchestratorRowsMap\<close> (package \<open>go/db\<close>, not among the
  sources), as the spec's section 7 has it: the rows of the query go to the callback one
  by one; a failure of the storage is returned as an error, with whatever the callback
  has built from the rows before it. An error of the callback stops the rows and is
  returned. \<open>query\<close> computes the rows from the database; \<open>s\<close> is what the callback
  accumulates.
\<close>

fun for_each_row :: "('r \<Rightarrow> 's \<Rightarrow> error option \<times> 's) \<Rightarrow> 'r list \<Rightarrow> 's \<Rightarrow> error option \<times> 's" where
  "for_each_row on_row [] s = (None, s)"
| "for_each_row on_row (m # ms) s =
     (case on_row m s of
        (Some e, s') \<Rightarrow> (Some e, s')
      | (None, s') \<Rightarrow> for_each_row on_row ms s')"

definition QueryOrchestratorRowsMap :: "(orchestrator_db \<Rightarrow> 'r list) \<Rightarrow> ('r \<Rightarrow> 'a \<times> orchestrator_db \<Rightarrow> error option \<times> 'a \<times> orchestrator_db) \<Rightarrow> 'a \<times> orchestrator_db \<Rightarrow> error option \<times> 'a \<times> orchestrator_db" where
  "QueryOrchestratorRowsMap query on_row s =
     (case next_query_outcome (snd s) of
        (QuerySucceeds, db1) \<Rightarrow> for_each_row on_row (query db1) (fst s, db1)
      | (QueryFailsAfter n, db1) \<Rightarrow>
          (case for_each_row on_row (take n (query db1)) (fst s, db1) of
             (Some e, s') \<Rightarrow> (Some e, s')
           | (None, s') \<Rightarrow> (Some QueryError, s')))"

section \<open>\<open>GetReplicationAnalysis\<close>: the row callback (lines 142--292)\<close>

text \<open>Lines 143--172: the record built from the row, before the rule chain.\<close>

definition read_row :: "externals \<Rightarrow> RowMap \<Rightarrow> ReplicationAnalysis" where
  "read_row ext m =
     (let countValidSlaves = GetUint (count_valid_slaves m);
          countOracleGTIDSlaves = GetUint (count_oracle_gtid_slaves m);
          countBinlogServerSlaves = GetUint (count_binlog_server_slaves m)
      in \<lparr>AnalyzedInstanceKey =
            \<lparr>Hostname = GetString (hostname m), Port = GetInt (map_option int (port m))\<rparr>,
          AnalyzedInstanceMasterKey =
            \<lparr>Hostname = GetString (master_host m), Port = GetInt (map_option int (master_port m))\<rparr>,
          ClusterDetails =
            ReadRecoveryInfo ext
              \<lparr>ClusterName = GetString (cluster_name m), ClusterAlias = GetString (cluster_alias m)\<rparr>,
          IsMaster = GetBool (is_master m),
          IsCoMaster = GetBool (is_co_master m),
          LastCheckValid = GetBool (is_last_check_valid m),
          CountSlaves = GetUint (count_slaves m),
          CountValidSlaves = countValidSlaves,
          CountValidReplicatingSlaves = GetUint (count_valid_replicating_slaves m),
          CountSlavesFailingToConnectToMaster = GetUint (count_slaves_failing_to_connect_to_master m),
          ReplicationDepth = GetUint (replication_depth m),
          SlaveHosts = set (ReadCommaDelimitedList ext (GetString (slave_hosts m))),
          IsFailingToConnectToMaster = GetBool (is_failing_to_connect_to_master m),
          Analysis = NoProblem,
          Description = [],
          IsDowntimed = GetBool (is_downtimed m),
          DowntimeEndTimestamp = GetString (downtime_end_timestamp m),
          DowntimeRemainingSeconds = GetInt (downtime_remaining_seconds m),
          IsBinlogServer = GetBool (is_binlog_server m),
          PseudoGTIDImmediateTopology = GetBool (is_pseudo_gtid m),
          OracleGTIDImmediateTopology =
            (GetBool (supports_oracle_gtid m) \<and> countOracleGTIDSlaves = countValidSlaves
               \<and> countValidSlaves > 0),
          MariaDBGTIDImmediateTopology = GetBool (is_mariadb_gtid m),
          BinlogServerImmediateTopology =
            (countBinlogServerSlaves = countValidSlaves \<and> countValidSlaves > 0)\<rparr>)"

text \<open>Lines 143--267: the record \<open>a\<close> of a row after the rule chain.\<close>

definition analyse_row :: "externals \<Rightarrow> RowMap \<Rightarrow> ReplicationAnalysis" where
  "analyse_row ext m = classify (read_row ext m)"

text \<open>\<open>matched, _ := regexp.MatchString(filter, hostname)\<close>: the error is dropped.\<close>

definition matched :: "regexp_error + bool \<Rightarrow> bool" where
  "matched r = (case r of Inl e \<Rightarrow> False | Inr b \<Rightarrow> b)"

text \<open>Lines 274--282: the value of \<open>skipThisHost\<close> after the loop and the downtime test.\<close>

definition skipThisHost :: "externals \<Rightarrow> Config \<Rightarrow> bool \<Rightarrow> ReplicationAnalysis \<Rightarrow> bool" where
  "skipThisHost ext cfg includeDowntimed a =
     (let skip = fold (\<lambda>filter skip.
                         if matched (regexp_MatchString ext filter (Hostname (AnalyzedInstanceKey a)))
                         then True else skip)
                   (RecoveryIgnoreHostnameFilters cfg) False
      in if IsDowntimed a \<and> \<not> includeDowntimed then True else skip)"

text \<open>
  The callback on one row: \<open>result\<close> and the database before, its error (always \<open>nil\<close>),
  \<open>result\<close> and the database after. The error that \<open>AuditInstanceAnalysisInChangelog\<close>
  returns is not read (line 289).
\<close>

definition on_row :: "externals \<Rightarrow> Config \<Rightarrow> bool \<Rightarrow> RowMap \<Rightarrow> ReplicationAnalysis list \<times> orchestrator_db \<Rightarrow> error option \<times> ReplicationAnalysis list \<times> orchestrator_db" where
  "on_row ext cfg includeDowntimed m s =
     (let a = analyse_row ext m;
          result = (if Analysis a \<noteq> NoProblem then
                      (if \<not> skipThisHost ext cfg includeDowntimed a then fst s @ [a] else fst s)
                    else fst s);
          db = (if CountSlaves a > 0 then
                  snd (AuditInstanceAnalysisInChangelog (AnalyzedInstanceKey a) (Analysis a) (snd s))
                else snd s)
      in (None, result, db))"

definition GetReplicationAnalysis :: "externals \<Rightarrow> Config \<Rightarrow> bool \<Rightarrow> orchestrator_db \<Rightarrow> ReplicationAnalysis list \<times> error option \<times> orchestrator_db" where
  "GetReplicationAnalysis ext cfg includeDowntimed db =
     (case QueryOrchestratorRowsMap (replication_analysis_query ext cfg)
             (on_row ext cfg includeDowntimed) ([], db) of
        (err, result, db') \<Rightarrow> (result, err, db'))"

section \<open>\<open>ReadReplicationAnalysisChangelog\<close> (lines 354--381)\<close>

record ReplicationAnalysisChangelog =
  Changelog_AnalyzedInstanceKey :: InstanceKey
  Changelog :: string

record changelog_RowMap =
  clm_hostname :: "string option"
  clm_port :: "int option"
  clm_changelog :: "string option"

text \<open>
  One row for each \<open>(hostname, port)\<close> of the changelog, with the entries of that key in
  the order of \<open>changelog_id\<close>, each as \<open>timestamp;analysis\<close>, separated by commas.
\<close>

definition changelog_query :: "externals \<Rightarrow> orchestrator_db \<Rightarrow> changelog_RowMap list" where
  "changelog_query ext db =
     (let cl = database_instance_analysis_changelog db in
      map (\<lambda>k. \<lparr>clm_hostname = Some (fst k), clm_port = Some (snd k),
                 clm_changelog = Some (join_with '',''
                   (map (\<lambda>r. format_timestamp ext (cl_analysis_timestamp r) @ '';''
                              @ code_string ext (cl_analysis r))
                      (filter (\<lambda>r. (cl_hostname r, cl_port r) = k) cl)))\<rparr>)
        (remdups (map (\<lambda>r. (cl_hostname r, cl_port r)) cl)))"

definition on_changelog_row :: "changelog_RowMap \<Rightarrow> ReplicationAnalysisChangelog list \<times> orchestrator_db \<Rightarrow> error option \<times> ReplicationAnalysisChangelog list \<times> orchestrator_db" where
  "on_changelog_row m s =
     (None,
      fst s @ [\<lparr>Changelog_AnalyzedInstanceKey =
                  \<lparr>Hostname = GetString (clm_hostname m), Port = GetInt (clm_port m)\<rparr>,
                Changelog = GetString (clm_changelog m)\<rparr>],
      snd s)"

definition ReadReplicationAnalysisChangelog :: "externals \<Rightarrow> orchestrator_db \<Rightarrow> ReplicationAnalysisChangelog list \<times> error option \<times> orchestrator_db" where
  "ReadReplicationAnalysisChangelog ext db =
     (case QueryOrchestratorRowsMap (changelog_query ext) on_changelog_row ([], db) of
        (err, res, db') \<Rightarrow> (res, err, db'))"

section \<open>Properties\<close>

text \<open>
  C1. The spec's example scenario, for a row with any values in the other fields: a master
  whose last check is not valid, with 3 replicas, 3 of them valid and none replicating, is
  classified \<open>DeadMaster\<close>; with 2 valid replicas it is \<open>DeadMasterAndSomeSlaves\<close>; with 3
  valid replicas of which 1 replicates it is \<open>UnreachableMaster\<close> (and so not
  \<open>NoProblem\<close>).
\<close>

theorem classify_example_scenario:
  "Analysis (classify (a\<lparr>IsMaster := True, LastCheckValid := False, CountSlaves := 3,
       CountValidSlaves := 3, CountValidReplicatingSlaves := 0\<rparr>)) = DeadMaster
   \<and> Analysis (classify (a\<lparr>IsMaster := True, LastCheckValid := False, CountSlaves := 3,
       CountValidSlaves := 2, CountValidReplicatingSlaves := 0\<rparr>)) = DeadMasterAndSomeSlaves
   \<and> Analysis (classify (a\<lparr>IsMaster := True, LastCheckValid := False, CountSlaves := 3,
       CountValidSlaves := 3, CountValidReplicatingSlaves := 1\<rparr>)) = UnreachableMaster"
  by (simp add: classify_def)

end
